theory Spec2Isabelle
  imports Main
begin

section \<open>Python primitives used by the bridge\<close>

text \<open>
  Strings are \<^typ>\<open>string\<close>; the model covers the ASCII fragment of Python's \<open>str\<close>.
  The character classes below are the ASCII parts of what \<open>str.strip\<close>, \<open>int\<close> and the
  \<open>re\<close> module (patterns on \<open>str\<close>) use: whitespace is \<open>\t \n \v \f \r\<close>, the separators
  \<open>0x1c..0x1f\<close> and the blank; a word character (\<open>\w\<close>) is a letter, a digit or \<open>_\<close>;
  \<open>\d\<close> is a decimal digit.
\<close>

definition is_space :: "char \<Rightarrow> bool" where
  "is_space c = (let n = (of_char c :: nat) in (9 \<le> n \<and> n \<le> 13) \<or> (28 \<le> n \<and> n \<le> 32))"

definition is_digit :: "char \<Rightarrow> bool" where
  "is_digit c = (let n = (of_char c :: nat) in 48 \<le> n \<and> n \<le> 57)"

definition is_word :: "char \<Rightarrow> bool" where
  "is_word c = (let n = (of_char c :: nat) in
     (48 \<le> n \<and> n \<le> 57) \<or> (65 \<le> n \<and> n \<le> 90) \<or> (97 \<le> n \<and> n \<le> 122) \<or> n = 95)"

text \<open>\<open>str.strip()\<close>: leading and trailing whitespace removed.\<close>

definition lstrip :: "string \<Rightarrow> string" where
  "lstrip s = dropWhile is_space s"

definition rstrip :: "string \<Rightarrow> string" where
  "rstrip s = rev (dropWhile is_space (rev s))"

definition strip :: "string \<Rightarrow> string" where
  "strip s = rstrip (lstrip s)"

text \<open>
  \<open>str.split(sep)\<close> for a one-character separator: the pieces between the separators,
  empty pieces kept; the result is never empty (\<open>''.split(',') == ['']\<close>).
\<close>

fun split_on :: "char \<Rightarrow> string \<Rightarrow> string list" where
  "split_on c [] = [[]]"
| "split_on c (x # xs) =
     (if x = c then [] # split_on c xs
      else (x # hd (split_on c xs)) # tl (split_on c xs))"

text \<open>\<open>sep.join(xs)\<close>.\<close>

fun join :: "string \<Rightarrow> string list \<Rightarrow> string" where
  "join sep [] = []"
| "join sep [x] = x"
| "join sep (x # y # ys) = x @ sep @ join sep (y # ys)"

text \<open>\<open>s.replace('\n', ' ')\<close>.\<close>

definition replace_newlines :: "string \<Rightarrow> string" where
  "replace_newlines s = map (\<lambda>c. if c = CHR 0x0A then CHR '' '' else c) s"

text \<open>
  \<open>int(s)\<close> on a string: surrounding whitespace is ignored, one sign is allowed, then
  decimal digits, where single underscores may stand between two digits. Anything else
  raises \<open>ValueError\<close> (here \<open>None\<close>). On an ASCII string the whitespace that \<open>int\<close>
  skips is \<open>\t \n \v \f \r\<close> and the blank only: the separators \<open>0x1c..0x1f\<close>, which
  \<open>str.strip\<close> removes, make \<open>int\<close> raise. The interpreter's limit on the number of
  digits (4300 by default, where it exists) is not part of the model.
\<close>

definition is_int_space :: "char \<Rightarrow> bool" where
  "is_int_space c = (let n = (of_char c :: nat) in (9 \<le> n \<and> n \<le> 13) \<or> n = 32)"

fun digits_value :: "int \<Rightarrow> string \<Rightarrow> int" where
  "digits_value acc [] = acc"
| "digits_value acc (c # cs) =
     (if c = CHR ''_'' then digits_value acc cs
      else digits_value (10 * acc + (int (of_char c) - 48)) cs)"

fun digits_ok :: "bool \<Rightarrow> string \<Rightarrow> bool" where
  "digits_ok prev_digit [] = prev_digit"
| "digits_ok prev_digit (c # cs) =
     (if is_digit c then digits_ok True cs
      else if c = CHR ''_'' \<and> prev_digit then digits_ok False cs
      else False)"

definition parse_digits :: "string \<Rightarrow> int option" where
  "parse_digits s = (if digits_ok False s then Some (digits_value 0 s) else None)"

definition py_int :: "string \<Rightarrow> int option" where
  "py_int s =
     (case rev (dropWhile is_int_space (rev (dropWhile is_int_space s))) of
        [] \<Rightarrow> None
      | c # cs \<Rightarrow>
          if c = CHR ''-'' then map_option uminus (parse_digits cs)
          else if c = CHR ''+'' then parse_digits cs
          else parse_digits (c # cs))"

text \<open>\<open>str(n)\<close> for an integer.\<close>

fun nat_digits :: "nat \<Rightarrow> string" where
  "nat_digits n =
     (if n < 10 then [''0123456789'' ! n]
      else nat_digits (n div 10) @ [''0123456789'' ! (n mod 10)])"

definition py_str :: "int \<Rightarrow> string" where
  "py_str i = (if i < 0 then CHR ''-'' # nat_digits (nat (- i)) else nat_digits (nat i))"

text \<open>
  A \<open>dict\<close> is an association list in insertion order. Assigning to a key that is
  present replaces its value in place; a new key goes to the end. Every dict of the model
  is built from the empty one by such assignments, so its keys are distinct.
\<close>

type_synonym ('k, 'v) dict = "('k \<times> 'v) list"

fun dict_set :: "('k, 'v) dict \<Rightarrow> 'k \<Rightarrow> 'v \<Rightarrow> ('k, 'v) dict" where
  "dict_set [] k v = [(k, v)]"
| "dict_set ((k', v') # d) k v =
     (if k' = k then (k, v) # d else (k', v') # dict_set d k v)"

definition dict_get :: "('k, 'v) dict \<Rightarrow> 'k \<Rightarrow> 'v option" where
  "dict_get d k = map_of d k"

section \<open>Regular expressions of the module\<close>

text \<open>
  \<open>valid_message_pattern = r'^(?![!?]\s*\w+)'\<close>, used with \<open>re.match\<close>: a negative
  lookahead at position 0. The lookahead \<open>[!?]\s*\w+\<close> succeeds when the text starts with
  \<open>!\<close> or \<open>?\<close>, and the first character after the whitespace that follows is a word
  character (\<open>\s\<close> and \<open>\w\<close> are disjoint, so giving back whitespace never helps).
  \<open>re.match\<close> returns a match object (truthy) exactly when the lookahead fails.
\<close>

definition command_like :: "string \<Rightarrow> bool" where
  "command_like s =
     (case s of
        [] \<Rightarrow> False
      | c # r \<Rightarrow>
          (c = CHR ''!'' \<or> c = CHR ''?'') \<and>
          (case dropWhile is_space r of [] \<Rightarrow> False | d # _ \<Rightarrow> is_word d))"

definition valid_message :: "string \<Rightarrow> bool" where
  "valid_message s = (\<not> command_like s)"

text \<open>
  \<open>r'<(:\w+:)\d+>'\<close> tried at the start of \<open>s\<close>: the result is group 1 and the text
  after the match. \<open>\w+\<close> must take every word character before the second colon and
  \<open>\d+\<close> every digit before \<open>>\<close>, since neither \<open>:\<close> nor \<open>>\<close> is in the class.
\<close>

definition match_emoji :: "string \<Rightarrow> (string \<times> string) option" where
  "match_emoji s =
     (case s of
        c1 # c2 # r \<Rightarrow>
          if c1 = CHR ''<'' \<and> c2 = CHR '':'' \<and> takeWhile is_word r \<noteq> [] then
            (case dropWhile is_word r of
               c3 # r2 \<Rightarrow>
                 if c3 = CHR '':'' \<and> takeWhile is_digit r2 \<noteq> [] then
                   (case dropWhile is_digit r2 of
                      c4 # r4 \<Rightarrow>
                        if c4 = CHR ''>'' then Some (CHR '':'' # takeWhile is_word r @ '':'', r4)
                        else None
                    | [] \<Rightarrow> None)
                 else None
             | [] \<Rightarrow> None)
          else None
      | _ \<Rightarrow> None)"

text \<open>
  \<open>re.sub(r'<(:\w+:)\d+>', r'\1', content)\<close>: scan from the left; where the pattern
  matches, emit group 1 and go on after the match, otherwise keep the character.
\<close>

function emoji_sub :: "string \<Rightarrow> string" where
  "emoji_sub [] = []"
| "emoji_sub (c # cs) =
     (case match_emoji (c # cs) of
        Some (g, rest) \<Rightarrow> g @ emoji_sub rest
      | None \<Rightarrow> c # emoji_sub cs)"
  by pat_completeness auto
termination
proof (relation "measure length")
  show "wf (measure length)" by simp
next
  fix c :: char and cs :: string and x2 :: "string \<times> string" and g rest :: string
  assume "match_emoji (c # cs) = Some x2" and "(g, rest) = x2"
  then have m: "match_emoji (c # cs) = Some (g, rest)" by simp
  have dw: "\<And>P (xs :: string) y ys. dropWhile P xs = y # ys \<Longrightarrow> length ys < length xs"
  proof -
    fix P and xs :: string and y ys
    assume "dropWhile P xs = y # ys"
    then have "length (y # ys) \<le> length xs"
      using length_dropWhile_le [of P xs] by simp
    then show "length ys < length xs" by simp
  qed
  from m obtain c2 r where s: "cs = c2 # r"
    by (auto simp: match_emoji_def split: list.splits)
  from m s obtain c3 r2 where r: "dropWhile is_word r = c3 # r2"
    by (auto simp: match_emoji_def split: list.splits if_splits)
  from m s r obtain c4 where r2: "dropWhile is_digit r2 = c4 # rest"
    by (auto simp: match_emoji_def split: list.splits if_splits)
  from dw [OF r] dw [OF r2] s show "(rest, c # cs) \<in> measure length" by simp
next
  fix c :: char and cs :: string
  show "(cs, c # cs) \<in> measure length" by simp
qed

declare emoji_sub.simps [simp del]

text \<open>
  \<open>re.match(r'^_.+_$', content)\<close>: \<open>.\<close> is any character but a newline, and \<open>$\<close>
  matches at the end or before one final newline.
\<close>

definition action_pattern :: "string \<Rightarrow> bool" where
  "action_pattern s =
     (let t = (if s \<noteq> [] \<and> last s = CHR 0x0A then butlast s else s)
      in 3 \<le> length t \<and> hd t = CHR ''_'' \<and> last t = CHR ''_'' \<and> CHR 0x0A \<notin> set t)"

section \<open>Data model\<close>

text \<open>
  Exceptions of the run. \<open>requests\<close> raises \<open>HTTPError\<close> from \<open>raise_for_status\<close>;
  \<open>ConnectionError\<close> and \<open>Timeout\<close> are its network errors, raised by \<open>requests.get\<close> and
  \<open>requests.post\<close> themselves. They are siblings of \<open>HTTPError\<close> below
  \<open>RequestException\<close>, so \<open>except HTTPError\<close> does not catch them.
\<close>

datatype exn =
    HTTPError nat
  | ConnectionError
  | Timeout
  | JSONDecodeError
  | ValueError
  | KeyError

fun is_HTTPError :: "exn \<Rightarrow> bool" where
  "is_HTTPError (HTTPError _) = True"
| "is_HTTPError _ = False"

text \<open>
  A webhook object of the remote API, \<open>{id, token, name}\<close>, all strings. An entry of
  \<open>bot.memory['webhooks']\<close> is such an object or the empty dict \<open>{}\<close>, which is \<open>None\<close>
  here; \<open>if hook\<close> tests for \<open>Some\<close>.
\<close>

record hook =
  hook_id :: string
  hook_token :: string
  hook_name :: string

type_synonym headers = "(string \<times> string) list"
type_synonym payload = "(string \<times> string) list"

text \<open>
  What a call of \<open>requests.get\<close> or \<open>requests.post\<close> does: it raises, or it returns a
  response with a status code, on which \<open>r.json()\<close> gives the decoded body or raises.
\<close>

datatype 'a http_result =
    Response nat "exn + 'a"
  | Raises exn

text \<open>
  The remote HTTP API, one function for each of its three calls: listing the webhooks of
  a channel (\<open>GET /channels/{id}/webhooks\<close>), creating one
  (\<open>POST /channels/{id}/webhooks\<close>) and delivering through one
  (\<open>POST /webhooks/{id}/{token}\<close>). The arguments are the URL, the headers and the JSON
  payload of the request.
\<close>

record http =
  get_webhooks :: "string \<Rightarrow> headers \<Rightarrow> hook list http_result"
  post_webhook :: "string \<Rightarrow> headers \<Rightarrow> payload \<Rightarrow> hook http_result"
  post_delivery :: "string \<Rightarrow> headers \<Rightarrow> payload \<Rightarrow> unit http_result"

text \<open>\<open>Response.raise_for_status()\<close>: \<open>HTTPError\<close> for a status from 400 to 599.\<close>

definition raise_for_status :: "nat \<Rightarrow> exn option" where
  "raise_for_status status =
     (if 400 \<le> status \<and> status < 600 then Some (HTTPError status) else None)"

text \<open>What the handlers do to the outside, in the order they do it.\<close>

datatype effect =
    Say string string
  | Action string string
  | LogDebug string
  | Print string
  | PrintExn exn
  | PrintDict "(int, string) dict"
  | HttpGet string headers
  | HttpPost string headers payload

fun is_send :: "effect \<Rightarrow> bool" where
  "is_send (Say _ _) = True"
| "is_send (Action _ _) = True"
| "is_send _ = False"

fun is_http :: "effect \<Rightarrow> bool" where
  "is_http (HttpGet _ _) = True"
| "is_http (HttpPost _ _ _) = True"
| "is_http _ = False"

text \<open>
  The state of the bridge: the configured token and mapping
  (\<open>bot.config.discord\<close>), \<open>client.channel_mappings\<close> (remote id to local name),
  \<open>bot.memory['channel_mappings']\<close> (local name to remote id) and
  \<open>bot.memory['webhooks']\<close>.
\<close>

record bridge =
  discord_token :: string
  config_channel_mappings :: "(string, string) dict"
  client_channel_mappings :: "(int, string) dict"
  memory_channel_mappings :: "(string, int) dict"
  memory_webhooks :: "(int, hook option) dict"

text \<open>
  A remote message event: \<open>message.author.id\<close>, \<open>message.author.name\<close>,
  \<open>message.channel.id\<close>, \<open>message.clean_content\<close>, the \<open>url\<close> of each attachment, and
  the text \<open>str(message)\<close> that the debug log prints.
\<close>

record message =
  author_id :: int
  author_name :: string
  channel_id :: int
  clean_content :: string
  attachments :: "string list"
  message_str :: string

text \<open>
  A local trigger: \<open>trigger.is_privmsg\<close>, \<open>trigger.sender\<close> (the channel name, as the
  lookup in \<open>bot.memory['channel_mappings']\<close> sees it), \<open>trigger.nick\<close>,
  \<open>trigger.match.string\<close> and \<open>trigger.tags.get('intent')\<close>.
\<close>

record trigger =
  is_privmsg :: bool
  sender :: string
  nick :: string
  match_string :: string
  intent :: "string option"

definition DISCORD_API_URL :: string where
  "DISCORD_API_URL = ''https://discord.com/api/v6''"

text \<open>\<open>bot.memory['webhooks'].get(channel, {})\<close>.\<close>

definition get_hook :: "(int, hook option) dict \<Rightarrow> int \<Rightarrow> hook option" where
  "get_hook webhooks channel =
     (case dict_get webhooks channel of None \<Rightarrow> None | Some entry \<Rightarrow> entry)"

section \<open>Inbound: \<open>on_message\<close>\<close>

text \<open>
  Lines 55 to 76, run once the guard of line 52 has passed: the local sends for the
  event. \<open>name_fmt\<close> stands for
  \<open>formatting.color(formatting.bold(name), formatting.colors.LIGHT_CYAN)\<close> of the
  \<open>sopel\<close> library.
\<close>

definition relay :: "(string \<Rightarrow> string) \<Rightarrow> message \<Rightarrow> string \<Rightarrow> effect list" where
  "relay name_fmt m irc_channel =
     (let content1 = emoji_sub (clean_content m);
          content2 =
            (if attachments m \<noteq> [] then
               join '' '' ((if content1 \<noteq> [] then [content1] else []) @ attachments m)
             else content1);
          content = strip (replace_newlines content2)
      in if content \<noteq> [] then
           (if action_pattern content \<and> attachments m = [] then
              [Action (author_name m @ '' '' @ butlast (tl content)) irc_channel]
            else
              [Say (''<'' @ name_fmt (author_name m) @ ''> '' @ content) irc_channel])
         else [])"

text \<open>
  The handler: the two debug lines, then the guard, whose conjuncts are evaluated from
  the left; \<open>int(hook['id'])\<close> raises \<open>ValueError\<close> when the id is not an integer literal.
  The result is what was done and the exception raised, if any.
\<close>

definition on_message ::
  "(string \<Rightarrow> string) \<Rightarrow> bridge \<Rightarrow> message \<Rightarrow> effect list \<times> exn option" where
  "on_message name_fmt b m =
     (let content = clean_content m;
          logged = [LogDebug (''[discord] <'' @ author_name m @ ''> '' @ content),
                    LogDebug (''[discord-msg] '' @ message_str m)]
      in case get_hook (memory_webhooks b) (channel_id m) of
           None \<Rightarrow> (logged, None)
         | Some hook \<Rightarrow>
             (case dict_get (client_channel_mappings b) (channel_id m) of
                None \<Rightarrow> (logged, None)
              | Some irc_channel \<Rightarrow>
                  (case py_int (hook_id hook) of
                     None \<Rightarrow> (logged, Some ValueError)
                   | Some hid \<Rightarrow>
                       if author_id m \<noteq> hid \<and> valid_message content then
                         (logged @ relay name_fmt m irc_channel, None)
                       else (logged, None))))"

definition local_sends :: "effect list \<times> exn option \<Rightarrow> effect list" where
  "local_sends run = filter is_send (fst run)"

definition http_calls :: "effect list \<times> exn option \<Rightarrow> effect list" where
  "http_calls run = filter is_http (fst run)"

section \<open>Outbound: \<open>irc_message\<close>\<close>

text \<open>The body of the \<open>try\<close> of lines 221 to 229.\<close>

definition deliver ::
  "http \<Rightarrow> hook \<Rightarrow> string \<Rightarrow> headers \<Rightarrow> payload \<Rightarrow> effect list \<times> exn option" where
  "deliver env hook url hdrs body =
     (let done = [LogDebug (''webhook id '' @ hook_id hook), HttpPost url hdrs body]
      in case post_delivery env url hdrs body of
           Raises e \<Rightarrow> (done, Some e)
         | Response status _ \<Rightarrow> (done, raise_for_status status))"

text \<open>\<open>except HTTPError as e: pass\<close>: an \<open>HTTPError\<close> is dropped, anything else goes on.\<close>

definition except_HTTPError_pass :: "exn option \<Rightarrow> exn option" where
  "except_HTTPError_pass raised =
     (case raised of
        None \<Rightarrow> None
      | Some e \<Rightarrow> if is_HTTPError e then None else Some e)"

definition irc_message :: "http \<Rightarrow> bridge \<Rightarrow> trigger \<Rightarrow> effect list \<times> exn option" where
  "irc_message env b t =
     (if \<not> is_privmsg t then
        (case dict_get (memory_channel_mappings b) (sender t) of
           None \<Rightarrow> ([], None)
         | Some discord_channel \<Rightarrow>
             (case get_hook (memory_webhooks b) discord_channel of
                None \<Rightarrow> ([], None)
              | Some hook \<Rightarrow>
                  (let hdrs = [(''Authorization'', ''Bot '' @ discord_token b)];
                       content =
                         (if intent t = Some ''ACTION'' then ''_'' @ match_string t @ ''_''
                          else match_string t);
                       body = [(''content'', content), (''username'', nick t @ '' (IRC)'')];
                       url = DISCORD_API_URL @ ''/webhooks/'' @ hook_id hook @ ''/''
                               @ hook_token hook;
                       run = deliver env hook url hdrs body
                   in (fst run, except_HTTPError_pass (snd run)))))
      else ([], None))"

section \<open>Configuration: \<open>DictAttribute.parse\<close> and the maps of \<open>setup\<close>\<close>

text \<open>
  \<open>parse\<close>: the items between commas; each must split at \<open>:\<close> into exactly two parts
  (\<open>k, v = item.split(':')\<close> raises \<open>ValueError\<close> otherwise); the stripped parts are
  stored with \<open>value[k] = v\<close>.
\<close>

fun parse_items :: "string list \<Rightarrow> (string, string) dict \<Rightarrow> exn + (string, string) dict" where
  "parse_items [] value = Inr value"
| "parse_items (item # pairs) value =
     (case split_on CHR '':'' item of
        [k, v] \<Rightarrow> parse_items pairs (dict_set value (strip k) (strip v))
      | _ \<Rightarrow> Inl ValueError)"

definition parse :: "string \<Rightarrow> exn + (string, string) dict" where
  "parse value = parse_items (split_on CHR '','' value) []"

text \<open>
  \<open>{int(k): v for k, v in bot.config.discord.channel_mappings.items()}\<close>, with the
  \<open>ValueError\<close> of \<open>int\<close>, and \<open>{v: k for k, v in client.channel_mappings.items()}\<close>.
\<close>

fun int_keys :: "(string, string) dict \<Rightarrow> (int, string) dict \<Rightarrow> exn + (int, string) dict" where
  "int_keys [] acc = Inr acc"
| "int_keys ((k, v) # items) acc =
     (case py_int k of
        None \<Rightarrow> Inl ValueError
      | Some i \<Rightarrow> int_keys items (dict_set acc i v))"

fun invert :: "('k, 'v) dict \<Rightarrow> ('v, 'k) dict \<Rightarrow> ('v, 'k) dict" where
  "invert [] acc = acc"
| "invert ((k, v) # items) acc = invert items (dict_set acc v k)"

text \<open>
  The two maps that \<open>setup\<close> builds from the configured dict: \<open>client.channel_mappings\<close>
  and \<open>bot.memory['channel_mappings']\<close>.
\<close>

definition setup_mappings ::
  "(string, string) dict \<Rightarrow> exn + ((int, string) dict \<times> (string, int) dict)" where
  "setup_mappings config =
     (case int_keys config [] of
        Inl e \<Rightarrow> Inl e
      | Inr client_map \<Rightarrow> Inr (client_map, invert client_map []))"

text \<open>Loading the mapping from the text of the configuration file, then building the maps.\<close>

definition load_mappings ::
  "string \<Rightarrow> exn + ((int, string) dict \<times> (string, int) dict)" where
  "load_mappings value =
     (case parse value of
        Inl e \<Rightarrow> Inl e
      | Inr config \<Rightarrow> setup_mappings config)"

text \<open>
  The two lookups in a row, on the maps that \<open>setup\<close> builds:
  \<open>bot.memory['channel_mappings'][client.channel_mappings[r]]\<close> for a remote id and
  \<open>client.channel_mappings[bot.memory['channel_mappings'][l]]\<close> for a local name;
  \<open>None\<close> when the maps cannot be built or a key is missing.
\<close>

definition remote_round_trip :: "(string, string) dict \<Rightarrow> int \<Rightarrow> int option" where
  "remote_round_trip config r =
     (case setup_mappings config of
        Inl e \<Rightarrow> None
      | Inr maps \<Rightarrow>
          (case dict_get (fst maps) r of
             None \<Rightarrow> None
           | Some l \<Rightarrow> dict_get (snd maps) l))"

definition local_round_trip :: "(string, string) dict \<Rightarrow> string \<Rightarrow> string option" where
  "local_round_trip config l =
     (case setup_mappings config of
        Inl e \<Rightarrow> None
      | Inr maps \<Rightarrow>
          (case dict_get (snd maps) l of
             None \<Rightarrow> None
           | Some r \<Rightarrow> dict_get (fst maps) r))"

text \<open>
  An entry of the configured list that loads: exactly one colon, and an integer literal
  before it.
\<close>

definition entry_loads :: "string \<Rightarrow> bool" where
  "entry_loads item =
     (case split_on CHR '':'' item of
        [k, v] \<Rightarrow> py_int (strip k) \<noteq> None
      | _ \<Rightarrow> False)"

section \<open>Provisioning: \<open>_setup_webhooks\<close>\<close>

text \<open>
  The state of the loop is the registry \<open>bot.memory['webhooks']\<close> and the effects so far.
  \<open>provision\<close> is the body of the \<open>try\<close> (lines 132 to 152) for one channel; it returns
  the state it leaves and the exception it raises, if any.
\<close>

type_synonym registry = "(int, hook option) dict"

text \<open>\<open>'{}/channels/{}/webhooks'.format(DISCORD_API_URL, channel_id)\<close>.\<close>

definition webhooks_url :: "int \<Rightarrow> string" where
  "webhooks_url channel = DISCORD_API_URL @ ''/channels/'' @ py_str channel @ ''/webhooks''"

definition keep_named :: "int \<Rightarrow> registry \<Rightarrow> hook \<Rightarrow> registry" where
  "keep_named channel webhooks hook =
     (if hook_name hook = ''discord-irc'' then dict_set webhooks channel (Some hook)
      else webhooks)"

definition create_hook ::
  "http \<Rightarrow> headers \<Rightarrow> int \<Rightarrow> registry \<times> effect list \<Rightarrow>
   (registry \<times> effect list) \<times> exn option" where
  "create_hook env hdrs channel st =
     (let url = webhooks_url channel;
          body = [(''name'', ''discord-irc'')];
          done = snd st @ [HttpPost url hdrs body]
      in case post_webhook env url hdrs body of
           Raises e \<Rightarrow> ((fst st, done), Some e)
         | Response status js \<Rightarrow>
             (case raise_for_status status of
                Some e \<Rightarrow> ((fst st, done), Some e)
              | None \<Rightarrow>
                  (case js of
                     Inl e \<Rightarrow> ((fst st, done), Some e)
                   | Inr hook \<Rightarrow> ((dict_set (fst st) channel (Some hook), done), None))))"

definition provision ::
  "http \<Rightarrow> headers \<Rightarrow> int \<Rightarrow> registry \<times> effect list \<Rightarrow>
   (registry \<times> effect list) \<times> exn option" where
  "provision env hdrs channel st =
     (let url = webhooks_url channel;
          done = snd st @ [HttpGet url hdrs]
      in case get_webhooks env url hdrs of
           Raises e \<Rightarrow> ((fst st, done), Some e)
         | Response status js \<Rightarrow>
             (let webhooks1 = dict_set (fst st) channel None
              in case raise_for_status status of
                   Some e \<Rightarrow> ((webhooks1, done), Some e)
                 | None \<Rightarrow>
                     (case js of
                        Inl e \<Rightarrow> ((webhooks1, done), Some e)
                      | Inr hooks \<Rightarrow>
                          (let webhooks2 = foldl (keep_named channel) webhooks1 hooks
                           in case dict_get webhooks2 channel of
                                None \<Rightarrow> ((webhooks2, done), Some KeyError)
                              | Some (Some _) \<Rightarrow> ((webhooks2, done), None)
                              | Some None \<Rightarrow> create_hook env hdrs channel (webhooks2, done)))))"

text \<open>The three \<open>print\<close> calls of the handler (lines 154 to 158).\<close>

definition failure_report :: "int \<Rightarrow> exn \<Rightarrow> effect list" where
  "failure_report channel e =
     [Print (''Could not access webhook API for channel '' @ py_str channel @ ''.''),
      Print (''Make sure the bot user has the '' @ [CHR 0x22] @ ''Manage webhooks'' @ [CHR 0x22]
             @ '' permissionon the specified discord channel.''),
      PrintExn e]"

text \<open>
  The \<open>for\<close> loop over \<open>bot.memory['channel_mappings'].items()\<close>: an \<open>HTTPError\<close> of the
  body is reported and the loop goes on; any other exception ends the loop and leaves the
  function.
\<close>

fun provision_all ::
  "http \<Rightarrow> headers \<Rightarrow> (string \<times> int) list \<Rightarrow> registry \<times> effect list \<Rightarrow>
   (registry \<times> effect list) \<times> exn option" where
  "provision_all env hdrs [] st = (st, None)"
| "provision_all env hdrs ((k, channel) # items) st =
     (case provision env hdrs channel st of
        (st1, None) \<Rightarrow> provision_all env hdrs items st1
      | (st1, Some e) \<Rightarrow>
          if is_HTTPError e then
            provision_all env hdrs items (fst st1, snd st1 @ failure_report channel e)
          else (st1, Some e))"

text \<open>
  \<open>_setup_webhooks(bot)\<close>: the result is the bridge with its new registry, the effects
  and the exception raised, if any.
\<close>

definition setup_webhooks :: "http \<Rightarrow> bridge \<Rightarrow> (bridge \<times> effect list) \<times> exn option" where
  "setup_webhooks env b =
     (let hdrs = [(''Authorization'', ''Bot '' @ discord_token b)];
          run = provision_all env hdrs (memory_channel_mappings b) ([], [])
      in ((b\<lparr>memory_webhooks := fst (fst run)\<rparr>, snd (fst run)), snd run))"

text \<open>
  \<open>setup(bot)\<close>, here \<open>setup_bridge\<close>, up to the call of \<open>_setup_webhooks\<close>; starting the client's thread is
  outside the model.
\<close>

definition setup_bridge :: "http \<Rightarrow> bridge \<Rightarrow> (bridge \<times> effect list) \<times> exn option" where
  "setup_bridge env b =
     (case setup_mappings (config_channel_mappings b) of
        Inl e \<Rightarrow> ((b, []), Some e)
      | Inr maps \<Rightarrow>
          (let b1 = b\<lparr>client_channel_mappings := fst maps,
                      memory_channel_mappings := snd maps\<rparr>;
               run = setup_webhooks env b1
           in ((fst (fst run), PrintDict (fst maps) # snd (fst run)), snd run)))"

section \<open>Sample inputs\<close>

definition sample_hook :: hook where
  "sample_hook = \<lparr>hook_id = ''777'', hook_token = ''tok'', hook_name = ''discord-irc''\<rparr>"

definition sample_bridge :: bridge where
  "sample_bridge =
     \<lparr>discord_token = ''secret'',
      config_channel_mappings = [(''42'', ''#irc''), (''43'', ''#dev'')],
      client_channel_mappings = [(42, ''#irc''), (43, ''#dev'')],
      memory_channel_mappings = [(''#irc'', 42), (''#dev'', 43)],
      memory_webhooks = [(42, Some sample_hook), (43, None)]\<rparr>"

definition sample_message :: message where
  "sample_message =
     \<lparr>author_id = 5, author_name = ''bob'', channel_id = 42,
      clean_content = ''_doing a thing_'', attachments = [],
      message_str = ''<Message id=1>''\<rparr>"

definition sample_trigger :: trigger where
  "sample_trigger =
     \<lparr>is_privmsg = False, sender = ''#irc'', nick = ''alice'', match_string = ''hi'',
      intent = None\<rparr>"

text \<open>
  Three remote sides: one that answers every call with success and has no webhook yet,
  one that answers every call with 403, and one that cannot be reached.
\<close>

definition http_ok :: http where
  "http_ok =
     \<lparr>get_webhooks = (\<lambda>url hdrs. Response 200 (Inr [])),
      post_webhook = (\<lambda>url hdrs body. Response 200 (Inr sample_hook)),
      post_delivery = (\<lambda>url hdrs body. Response 204 (Inr ()))\<rparr>"


definition http_down :: http where
  "http_down =
     \<lparr>get_webhooks = (\<lambda>url hdrs. Raises ConnectionError),
      post_webhook = (\<lambda>url hdrs body. Raises ConnectionError),
      post_delivery = (\<lambda>url hdrs body. Raises ConnectionError)\<rparr>"

text \<open>The first channel is forbidden, every other one is provisioned.\<close>

definition http_first_forbidden :: http where
  "http_first_forbidden =
     \<lparr>get_webhooks = (\<lambda>url hdrs.
        if url = ''https://discord.com/api/v6/channels/42/webhooks''
        then Response 403 (Inl JSONDecodeError) else Response 200 (Inr [])),
      post_webhook = (\<lambda>url hdrs body. Response 200 (Inr sample_hook)),
      post_delivery = (\<lambda>url hdrs body. Response 204 (Inr ()))\<rparr>"

text \<open>Listing works, creating a webhook for the first channel is forbidden.\<close>

definition http_create_forbidden :: http where
  "http_create_forbidden =
     \<lparr>get_webhooks = (\<lambda>url hdrs. Response 200 (Inr [])),
      post_webhook = (\<lambda>url hdrs body.
        if url = ''https://discord.com/api/v6/channels/42/webhooks''
        then Response 403 (Inl JSONDecodeError) else Response 200 (Inr sample_hook)),
      post_delivery = (\<lambda>url hdrs body. Response 204 (Inr ()))\<rparr>"

text \<open>Listing works, creating a webhook meets a network failure.\<close>

definition http_create_down :: http where
  "http_create_down =
     \<lparr>get_webhooks = (\<lambda>url hdrs. Response 200 (Inr [])),
      post_webhook = (\<lambda>url hdrs body. Raises ConnectionError),
      post_delivery = (\<lambda>url hdrs body. Response 204 (Inr ()))\<rparr>"

section \<open>Facts about the primitives\<close>

lemma strip_Nil_iff: "strip s = [] \<longleftrightarrow> (\<forall>c \<in> set s. is_space c)"
proof -
  have "strip s = [] \<longleftrightarrow> dropWhile is_space (rev (dropWhile is_space s)) = []"
    by (simp add: strip_def rstrip_def lstrip_def)
  also have "\<dots> \<longleftrightarrow> (\<forall>c \<in> set (dropWhile is_space s). is_space c)"
    by (simp add: dropWhile_eq_Nil_conv)
  also have "\<dots> \<longleftrightarrow> (\<forall>c \<in> set s. is_space c)"
  proof
    assume a: "\<forall>c \<in> set (dropWhile is_space s). is_space c"
    have "dropWhile is_space s = []"
    proof (cases "dropWhile is_space s")
      case Nil then show ?thesis .
    next
      case (Cons x xs)
      then have "\<not> is_space x" using hd_dropWhile [of is_space s] by simp
      moreover have "is_space x" using a Cons by simp
      ultimately show ?thesis by simp
    qed
    then show "\<forall>c \<in> set s. is_space c" by (simp add: dropWhile_eq_Nil_conv)
  next
    assume "\<forall>c \<in> set s. is_space c"
    then show "\<forall>c \<in> set (dropWhile is_space s). is_space c"
      by (auto dest: set_dropWhileD)
  qed
  finally show ?thesis .
qed

lemma strip_keeps_prefix:
  assumes "\<not> is_space c" and "\<not> is_space d"
  shows "\<exists>rest. strip (c # mid @ d # r) = c # mid @ d # rest"
proof -
  have l: "lstrip (c # mid @ d # r) = c # mid @ d # r"
    using assms(1) by (simp add: lstrip_def)
  have "rev (dropWhile is_space (rev r @ d # rev mid @ [c]))
          = c # mid @ d # rev (dropWhile is_space (rev r))"
    using assms(2) by (simp add: dropWhile_append)
  then have "rstrip (c # mid @ d # r) = c # mid @ d # rev (dropWhile is_space (rev r))"
    by (simp add: rstrip_def)
  with l show ?thesis by (simp add: strip_def)
qed

lemma join_Cons: "ys \<noteq> [] \<Longrightarrow> join sep (x # ys) = x @ sep @ join sep ys"
  by (cases ys) simp_all

lemma takeWhile_stop: "\<not> P y \<Longrightarrow> takeWhile P (xs @ y # ys) = takeWhile P xs"
  by (induction xs) simp_all

lemma dropWhile_stop: "\<not> P y \<Longrightarrow> dropWhile P (xs @ y # ys) = dropWhile P xs @ y # ys"
  by (induction xs) simp_all

lemma lt_not_word: "\<not> is_word CHR ''<''" and lt_not_digit: "\<not> is_digit CHR ''<''"
  and colon_not_word: "\<not> is_word CHR '':''" and gt_not_digit: "\<not> is_digit CHR ''>''"
  by (simp_all add: is_word_def is_digit_def)

lemma match_emoji_before_lt:
  "match_emoji (c # cs @ CHR ''<'' # post) =
     map_option (\<lambda>(g, rest). (g, rest @ CHR ''<'' # post)) (match_emoji (c # cs))"
proof (cases cs)
  case Nil
  then show ?thesis by (simp add: match_emoji_def)
next
  case (Cons c2 r)
  show ?thesis
  proof (cases "dropWhile is_word r")
    case Nil
    then show ?thesis
      using Cons
      by (simp add: match_emoji_def takeWhile_stop dropWhile_stop lt_not_word
            del: dropWhile_eq_Nil_conv)
  next
    case w: (Cons c3 r2)
    show ?thesis
    proof (cases "dropWhile is_digit r2")
      case Nil
      then show ?thesis
        using Cons w
        by (simp add: match_emoji_def takeWhile_stop dropWhile_stop lt_not_word lt_not_digit
              del: dropWhile_eq_Nil_conv)
    next
      case d: (Cons c4 r4)
      then show ?thesis
        using Cons w
        by (simp add: match_emoji_def takeWhile_stop dropWhile_stop lt_not_word lt_not_digit
              del: dropWhile_eq_Nil_conv)
    qed
  qed
qed

lemma emoji_sub_before_lt:
  "emoji_sub (pre @ CHR ''<'' # post) = emoji_sub pre @ emoji_sub (CHR ''<'' # post)"
proof (induction pre rule: emoji_sub.induct)
  case 1
  show ?case by (simp add: emoji_sub.simps(1))
next
  case (2 c cs)
  show ?case
  proof (cases "match_emoji (c # cs)")
    case None
    then have "match_emoji (c # cs @ CHR ''<'' # post) = None"
      by (simp add: match_emoji_before_lt)
    then have l: "emoji_sub (c # cs @ CHR ''<'' # post) = c # emoji_sub (cs @ CHR ''<'' # post)"
      by (simp add: emoji_sub.simps(2) [of c "cs @ CHR ''<'' # post"])
    have r: "emoji_sub (c # cs) = c # emoji_sub cs"
      using None by (simp add: emoji_sub.simps(2) [of c cs])
    show ?thesis
      using l r "2.IH"(1) [OF None] by simp
  next
    case (Some p)
    obtain g rest where p: "p = (g, rest)" by (cases p)
    have "match_emoji (c # cs @ CHR ''<'' # post) = Some (g, rest @ CHR ''<'' # post)"
      using Some p by (simp add: match_emoji_before_lt)
    then have l: "emoji_sub (c # cs @ CHR ''<'' # post) = g @ emoji_sub (rest @ CHR ''<'' # post)"
      by (simp add: emoji_sub.simps(2) [of c "cs @ CHR ''<'' # post"])
    have r: "emoji_sub (c # cs) = g @ emoji_sub rest"
      using Some p by (simp add: emoji_sub.simps(2) [of c cs])
    show ?thesis
      using l r "2.IH"(2) [OF Some p [symmetric]] by simp
  qed
qed

lemma match_emoji_occurrence:
  assumes "w \<noteq> []" and "\<forall>c \<in> set w. is_word c" and "d \<noteq> []" and "\<forall>c \<in> set d. is_digit c"
  shows "match_emoji (''<:'' @ w @ '':'' @ d @ ''>'' @ post) = Some ('':'' @ w @ '':'', post)"
proof -
  have tw: "takeWhile is_word (w @ CHR '':'' # d @ CHR ''>'' # post) = w"
    using assms(2) by (simp add: takeWhile_stop colon_not_word)
  have dw: "dropWhile is_word (w @ CHR '':'' # d @ CHR ''>'' # post) = CHR '':'' # d @ CHR ''>'' # post"
    using assms(2) by (simp add: dropWhile_stop colon_not_word)
  have td: "takeWhile is_digit (d @ CHR ''>'' # post) = d"
    using assms(4) by (simp add: takeWhile_stop gt_not_digit)
  have dd: "dropWhile is_digit (d @ CHR ''>'' # post) = CHR ''>'' # post"
    using assms(4) by (simp add: dropWhile_stop gt_not_digit)
  show ?thesis
    using assms(1,3) by (simp add: match_emoji_def tw dw td dd)
qed

section \<open>Facts about dicts and the configuration\<close>

lemma dict_set_keys: "fst ` set (dict_set d k v) = insert k (fst ` set d)"
  by (induction d k v rule: dict_set.induct) auto

lemma dict_get_dict_set:
  "dict_get (dict_set d k v) k' = (if k' = k then Some v else dict_get d k')"
  by (induction d k v rule: dict_set.induct) (auto simp: dict_get_def)

lemma dict_set_new: "k \<notin> fst ` set d \<Longrightarrow> dict_set d k v = d @ [(k, v)]"
  by (induction d k v rule: dict_set.induct) auto

lemma two_parts: "length xs = 2 \<Longrightarrow> xs = [hd xs, hd (tl xs)]"
  by (cases xs; cases "tl xs") auto

lemma parse_items_step:
  "parse_items (item # pairs) acc =
     (if length (split_on CHR '':'' item) = 2
      then parse_items pairs
             (dict_set acc (strip (hd (split_on CHR '':'' item)))
                (strip (hd (tl (split_on CHR '':'' item)))))
      else Inl ValueError)"
proof (cases "length (split_on CHR '':'' item) = 2")
  case True
  from two_parts [OF this] obtain k v where kv: "split_on CHR '':'' item = [k, v]" by blast
  then show ?thesis by simp
next
  case False
  then show ?thesis
    by (auto split: list.splits)
qed

lemma parse_items_keys:
  "\<forall>item \<in> set pairs. length (split_on CHR '':'' item) = 2 \<Longrightarrow>
   \<exists>d. parse_items pairs acc = Inr d \<and>
       fst ` set d = fst ` set acc \<union> (\<lambda>item. strip (hd (split_on CHR '':'' item))) ` set pairs"
proof (induction pairs arbitrary: acc)
  case Nil
  then show ?case by simp
next
  case (Cons item pairs)
  let ?acc = "dict_set acc (strip (hd (split_on CHR '':'' item)))
                (strip (hd (tl (split_on CHR '':'' item))))"
  from Cons.prems have "\<forall>item \<in> set pairs. length (split_on CHR '':'' item) = 2" by simp
  from Cons.IH [OF this, of ?acc] obtain d where
    d: "parse_items pairs ?acc = Inr d"
       "fst ` set d = fst ` set ?acc \<union> (\<lambda>item. strip (hd (split_on CHR '':'' item))) ` set pairs"
    by blast
  from Cons.prems have "parse_items (item # pairs) acc = parse_items pairs ?acc"
    by (simp only: parse_items_step) simp
  with d show ?case by (auto simp: dict_set_keys)
qed

lemma parse_items_malformed:
  "\<exists>item \<in> set pairs. length (split_on CHR '':'' item) \<noteq> 2 \<Longrightarrow>
   parse_items pairs acc = Inl ValueError"
proof (induction pairs arbitrary: acc)
  case Nil
  then show ?case by simp
next
  case (Cons item pairs)
  show ?case
  proof (cases "length (split_on CHR '':'' item) = 2")
    case True
    with Cons.prems have "\<exists>item \<in> set pairs. length (split_on CHR '':'' item) \<noteq> 2" by simp
    from Cons.IH [OF this] True show ?thesis by (simp only: parse_items_step) simp
  next
    case False
    then show ?thesis by (simp only: parse_items_step) simp
  qed
qed

lemma int_keys_result:
  "int_keys config acc =
     (if \<forall>k \<in> fst ` set config. py_int k \<noteq> None
      then Inr (foldl (\<lambda>d (k, v). dict_set d (the (py_int k)) v) acc config)
      else Inl ValueError)"
proof (induction config acc rule: int_keys.induct)
  case (1 acc)
  show ?case by simp
next
  case (2 k v items acc)
  show ?case
  proof (cases "py_int k")
    case None
    then show ?thesis by force
  next
    case (Some i)
    with "2.IH" [OF Some] show ?thesis by simp
  qed
qed

lemma entry_loads_iff:
  "entry_loads item \<longleftrightarrow>
     length (split_on CHR '':'' item) = 2 \<and> py_int (strip (hd (split_on CHR '':'' item))) \<noteq> None"
proof (cases "length (split_on CHR '':'' item) = 2")
  case True
  from two_parts [OF this] obtain k v where kv: "split_on CHR '':'' item = [k, v]" by blast
  then show ?thesis by (simp add: entry_loads_def)
next
  case False
  then show ?thesis by (auto simp: entry_loads_def split: list.splits)
qed

lemma int_keys_distinct:
  assumes "\<forall>k \<in> fst ` set config. py_int k \<noteq> None"
      and "distinct (map (\<lambda>p. py_int (fst p)) config)"
      and "\<forall>k \<in> fst ` set config. the (py_int k) \<notin> fst ` set acc"
  shows "int_keys config acc = Inr (acc @ map (\<lambda>(k, v). (the (py_int k), v)) config)"
  using assms
proof (induction config acc rule: int_keys.induct)
  case (1 acc)
  show ?case by simp
next
  case (2 k v items acc)
  from "2.prems"(1) obtain i where i: "py_int k = Some i" by auto
  from "2.prems"(3) i have new: "i \<notin> fst ` set acc" by simp
  have a: "\<forall>k \<in> fst ` set items. py_int k \<noteq> None" using "2.prems"(1) by simp
  have b: "distinct (map (\<lambda>p. py_int (fst p)) items)" using "2.prems"(2) by simp
  have c: "\<forall>k' \<in> fst ` set items. the (py_int k') \<notin> fst ` set (dict_set acc i v)"
  proof
    fix k' assume k': "k' \<in> fst ` set items"
    then have "py_int k' \<noteq> py_int k" using "2.prems"(2) by (auto simp: image_iff)
    moreover from a k' obtain j where "py_int k' = Some j" by auto
    ultimately have "the (py_int k') \<noteq> i" using i by simp
    moreover have "the (py_int k') \<notin> fst ` set acc" using "2.prems"(3) k' by auto
    ultimately show "the (py_int k') \<notin> fst ` set (dict_set acc i v)"
      by (simp add: dict_set_keys)
  qed
  from "2.IH" [OF i a b c] i new show ?case by (simp add: dict_set_new)
qed

lemma invert_distinct:
  assumes "distinct (map snd d)" and "\<forall>v \<in> snd ` set d. v \<notin> fst ` set acc"
  shows "invert d acc = acc @ map (\<lambda>(k, v). (v, k)) d"
  using assms
proof (induction d acc rule: invert.induct)
  case (1 acc)
  show ?case by simp
next
  case (2 k v items acc)
  have new: "v \<notin> fst ` set acc" using "2.prems"(2) by simp
  have a: "distinct (map snd items)" using "2.prems"(1) by simp
  have b: "\<forall>v' \<in> snd ` set items. v' \<notin> fst ` set (dict_set acc v k)"
    using "2.prems" by (auto simp: dict_set_keys image_iff)
  from "2.IH" [OF a b] new show ?case by (simp add: dict_set_new)
qed

section \<open>Facts about provisioning\<close>

lemma keep_named_other:
  "dict_get (foldl (keep_named channel) w hooks) c =
     (if c = channel then dict_get (foldl (keep_named channel) w hooks) channel else dict_get w c)"
  by (induction hooks arbitrary: w) (auto simp: keep_named_def dict_get_dict_set)

lemma keep_named_none:
  "\<forall>h \<in> set hooks. hook_name h \<noteq> ''discord-irc'' \<Longrightarrow> foldl (keep_named channel) w hooks = w"
  by (induction hooks arbitrary: w) (auto simp: keep_named_def)

lemma create_hook_other:
  "c \<noteq> channel \<Longrightarrow>
   dict_get (fst (fst (create_hook env hdrs channel st))) c = dict_get (fst st) c"
  by (simp add: create_hook_def Let_def dict_get_dict_set
        split: http_result.splits option.splits sum.splits)

lemma provision_other:
  assumes "c \<noteq> channel"
  shows "dict_get (fst (fst (provision env hdrs channel st))) c = dict_get (fst st) c"
proof -
  have k: "dict_get (foldl (keep_named channel) (dict_set (fst st) channel None) hooks) c
             = dict_get (fst st) c" for hooks
    using assms by (simp add: keep_named_other dict_get_dict_set)
  show ?thesis
    using assms k
    by (simp add: provision_def Let_def dict_get_dict_set create_hook_other
          split: http_result.splits option.splits sum.splits)
qed

lemma provision_all_other:
  "c \<notin> snd ` set items \<Longrightarrow>
   dict_get (fst (fst (provision_all env hdrs items st))) c = dict_get (fst st) c"
proof (induction items arbitrary: st)
  case Nil
  show ?case by simp
next
  case (Cons item items)
  obtain k channel where item: "item = (k, channel)" by (cases item)
  from Cons.prems item have ne: "c \<noteq> channel" and rest: "c \<notin> snd ` set items" by auto
  obtain st1 r where p: "provision env hdrs channel st = (st1, r)"
    by (cases "provision env hdrs channel st")
  from provision_other [OF ne, of env hdrs st] p
  have s1: "dict_get (fst st1) c = dict_get (fst st) c" by simp
  show ?case
  proof (cases r)
    case None
    with p item Cons.IH [OF rest, of st1] s1 show ?thesis by simp
  next
    case (Some e)
    show ?thesis
    proof (cases "is_HTTPError e")
      case True
      with Some p item s1
        Cons.IH [OF rest, of "(fst st1, snd st1 @ failure_report channel e)"]
      show ?thesis by simp
    next
      case False
      with Some p item s1 show ?thesis by simp
    qed
  qed
qed

lemma provision_get_error:
  assumes "get_webhooks env (webhooks_url c) hdrs = Response status js"
      and "400 \<le> status" and "status < 600"
  shows "provision env hdrs c (w, tr) =
           ((dict_set w c None, tr @ [HttpGet (webhooks_url c) hdrs]), Some (HTTPError status))"
  using assms by (simp add: provision_def Let_def raise_for_status_def)

lemma provision_post_error:
  assumes "get_webhooks env (webhooks_url c) hdrs = Response s1 (Inr hooks)"
      and "\<not> (400 \<le> s1 \<and> s1 < 600)"
      and "\<forall>h \<in> set hooks. hook_name h \<noteq> ''discord-irc''"
      and "post_webhook env (webhooks_url c) hdrs [(''name'', ''discord-irc'')]
             = Response status js"
      and "400 \<le> status" and "status < 600"
  shows "provision env hdrs c (w, tr) =
           ((dict_set w c None,
             tr @ [HttpGet (webhooks_url c) hdrs,
                   HttpPost (webhooks_url c) hdrs [(''name'', ''discord-irc'')]]),
            Some (HTTPError status))"
  using assms
  by (simp add: provision_def create_hook_def Let_def raise_for_status_def keep_named_none
        dict_get_dict_set)

lemma provision_get_raises:
  assumes "get_webhooks env (webhooks_url c) hdrs = Raises e"
  shows "provision env hdrs c (w, tr) = ((w, tr @ [HttpGet (webhooks_url c) hdrs]), Some e)"
  using assms by (simp add: provision_def Let_def)

lemma provision_post_raises:
  assumes "get_webhooks env (webhooks_url c) hdrs = Response s1 (Inr hooks)"
      and "\<not> (400 \<le> s1 \<and> s1 < 600)"
      and "\<forall>h \<in> set hooks. hook_name h \<noteq> ''discord-irc''"
      and "post_webhook env (webhooks_url c) hdrs [(''name'', ''discord-irc'')] = Raises e"
  shows "provision env hdrs c (w, tr) =
           ((dict_set w c None,
             tr @ [HttpGet (webhooks_url c) hdrs,
                   HttpPost (webhooks_url c) hdrs [(''name'', ''discord-irc'')]]),
            Some e)"
  using assms
  by (simp add: provision_def create_hook_def Let_def raise_for_status_def keep_named_none
        dict_get_dict_set)

section \<open>Facts about \<open>on_message\<close>\<close>

lemma relay_sends: "filter is_send (relay name_fmt m ch) = relay name_fmt m ch"
  by (simp add: relay_def Let_def)

lemma on_message_forward:
  assumes "get_hook (memory_webhooks b) (channel_id m) = Some h"
      and "dict_get (client_channel_mappings b) (channel_id m) = Some irc_channel"
      and "py_int (hook_id h) = Some hid"
      and "author_id m \<noteq> hid"
      and "valid_message (clean_content m)"
  shows "local_sends (on_message name_fmt b m) = relay name_fmt m irc_channel"
  using assms by (simp add: on_message_def local_sends_def Let_def relay_sends)

lemma on_message_filtered:
  assumes "\<not> valid_message (clean_content m)"
  shows "local_sends (on_message name_fmt b m) = []"
  using assms by (simp add: on_message_def local_sends_def Let_def split: option.splits)

lemma relay_hello:
  "relay name_fmt (m\<lparr>clean_content := ''hello''\<rparr>) ch =
     [Say (''<'' @ name_fmt (author_name m) @ ''> ''
            @ strip (replace_newlines (join '' '' (''hello'' # attachments m)))) ch]"
proof -
  have e: "emoji_sub ''hello'' = ''hello''" by (simp add: match_emoji_def emoji_sub.simps)
  have "\<not> is_space CHR ''h''" by (simp add: is_space_def)
  then have "\<not> (\<forall>c \<in> set (replace_newlines (join '' '' (''hello'' # attachments m))). is_space c)"
    by (cases "attachments m") (auto simp: replace_newlines_def join_Cons)
  then have ne: "strip (replace_newlines (join '' '' (''hello'' # attachments m))) \<noteq> []"
    by (simp add: strip_Nil_iff)
  have a: "attachments m = [] \<Longrightarrow> \<not> action_pattern (strip (replace_newlines ''hello''))"
    by (simp add: action_pattern_def strip_def lstrip_def rstrip_def replace_newlines_def is_space_def)
  show ?thesis
    using ne a by (auto simp: relay_def e Let_def)
qed

lemma strip_hello: "strip (replace_newlines ''hello'') = ''hello''"
  by (simp add: strip_def lstrip_def rstrip_def replace_newlines_def is_space_def)

lemma action_pattern_doing: "action_pattern ''_doing a thing_''"
  by (simp add: action_pattern_def)

section \<open>Loop prevention\<close>

text \<open>
  C1. A remote event whose author id equals the id of the webhook registered for the
  event's channel (\<open>message.author.id == int(hook['id'])\<close>) leads to no \<open>say\<close> and no
  \<open>action\<close>, whatever its text and attachments are, and \<open>on_message\<close> raises nothing.
\<close>

theorem on_message_self_echo:
  assumes "get_hook (memory_webhooks b) (channel_id m) = Some h"
      and "py_int (hook_id h) = Some (author_id m)"
  shows "local_sends (on_message name_fmt b m) = [] \<and> snd (on_message name_fmt b m) = None"
  using assms by (simp add: on_message_def local_sends_def Let_def split: option.splits)

theorem on_message_self_echo_witness:
  "get_hook (memory_webhooks sample_bridge) (channel_id (sample_message\<lparr>author_id := 777\<rparr>))
     = Some sample_hook
   \<and> py_int (hook_id sample_hook) = Some (author_id (sample_message\<lparr>author_id := 777\<rparr>))
   \<and> local_sends (on_message id sample_bridge (sample_message\<lparr>author_id := 777\<rparr>)) = []
   \<and> snd (on_message id sample_bridge (sample_message\<lparr>author_id := 777\<rparr>)) = None"
proof -
  have h1: "get_hook (memory_webhooks sample_bridge)
              (channel_id (sample_message\<lparr>author_id := 777\<rparr>)) = Some sample_hook"
    by code_simp
  have h2: "py_int (hook_id sample_hook) = Some (author_id (sample_message\<lparr>author_id := 777\<rparr>))"
    by code_simp
  from on_message_self_echo [OF h1 h2, of id] h1 h2 show ?thesis by simp
qed

section \<open>Outbound delivery\<close>

text \<open>
  C7. A local trigger whose channel is mapped to a remote channel with no webhook in the
  registry (no entry, or the empty entry) makes \<open>irc_message\<close> do nothing: no HTTP call,
  no log line, no exception.
\<close>

theorem irc_message_no_endpoint:
  assumes "dict_get (memory_channel_mappings b) (sender t) = Some c"
      and "get_hook (memory_webhooks b) c = None"
  shows "irc_message env b t = ([], None)"
  using assms by (simp add: irc_message_def)

theorem irc_message_no_endpoint_witness:
  "dict_get (memory_channel_mappings sample_bridge) (sender (sample_trigger\<lparr>sender := ''#dev''\<rparr>))
     = Some 43
   \<and> get_hook (memory_webhooks sample_bridge) 43 = None
   \<and> irc_message http_ok sample_bridge (sample_trigger\<lparr>sender := ''#dev''\<rparr>) = ([], None)"
proof -
  have h1: "dict_get (memory_channel_mappings sample_bridge)
              (sender (sample_trigger\<lparr>sender := ''#dev''\<rparr>)) = Some 43"
    by code_simp
  have h2: "get_hook (memory_webhooks sample_bridge) 43 = None"
    by code_simp
  from irc_message_no_endpoint [OF h1 h2, of http_ok] h1 h2 show ?thesis by simp
qed

section \<open>Inbound normalisation\<close>

text \<open>
  C8. Wherever the text holds \<open><:shortcode:numeric_id>\<close>, a non-empty run of word
  characters as shortcode and a non-empty run of digits as id, \<open>re.sub\<close> of line 56 puts
  \<open>:shortcode:\<close> in its place and treats the text before and the text after on their own.
  The text \<open><:smile:123456789>\<close> becomes \<open>:smile:\<close>, and an event with this text
  and no attachment is relayed as \<open>:smile:\<close> after the author's name.
\<close>

theorem emoji_rewritten:
  assumes "w \<noteq> []" and "\<forall>c \<in> set w. is_word c" and "d \<noteq> []" and "\<forall>c \<in> set d. is_digit c"
  shows "emoji_sub (pre @ ''<:'' @ w @ '':'' @ d @ ''>'' @ post)
           = emoji_sub pre @ '':'' @ w @ '':'' @ emoji_sub post
       \<and> emoji_sub ''<:smile:123456789>'' = '':smile:''
       \<and> relay name_fmt (m\<lparr>clean_content := ''<:smile:123456789>'', attachments := []\<rparr>) ch
           = [Say (''<'' @ name_fmt (author_name m) @ ''> :smile:'') ch]"
proof -
  have "emoji_sub (pre @ ''<:'' @ w @ '':'' @ d @ ''>'' @ post)
          = emoji_sub pre @ emoji_sub (CHR ''<'' # '':'' @ w @ '':'' @ d @ ''>'' @ post)"
    using emoji_sub_before_lt [of pre "'':'' @ w @ '':'' @ d @ ''>'' @ post"] by simp
  also have "emoji_sub (CHR ''<'' # '':'' @ w @ '':'' @ d @ ''>'' @ post)
               = ('':'' @ w @ '':'') @ emoji_sub post"
    using match_emoji_occurrence [OF assms, of post]
    by (subst emoji_sub.simps(2)) simp
  finally have g: "emoji_sub (pre @ ''<:'' @ w @ '':'' @ d @ ''>'' @ post)
                     = emoji_sub pre @ '':'' @ w @ '':'' @ emoji_sub post"
    by simp
  have e: "emoji_sub ''<:smile:123456789>'' = '':smile:''"
    by (simp add: emoji_sub.simps match_emoji_def is_word_def is_digit_def)
  have n: "strip (replace_newlines '':smile:'') = '':smile:''"
    by (simp add: strip_def lstrip_def rstrip_def replace_newlines_def is_space_def)
  have a: "\<not> action_pattern '':smile:''"
    by (simp add: action_pattern_def)
  have "relay name_fmt (m\<lparr>clean_content := ''<:smile:123456789>'', attachments := []\<rparr>) ch
          = [Say (''<'' @ name_fmt (author_name m) @ ''> :smile:'') ch]"
    using a by (simp add: relay_def Let_def e n)
  with g e show ?thesis by simp
qed

theorem emoji_rewritten_witness:
  "''smile'' \<noteq> [] \<and> list_all is_word ''smile'' \<and> ''123'' \<noteq> [] \<and> list_all is_digit ''123''
   \<and> emoji_sub (''hi '' @ ''<:'' @ ''smile'' @ '':'' @ ''123'' @ ''>'' @ '' <:ok:7>'')
       = ''hi :smile: :ok:''"
proof -
  have h2: "\<forall>c \<in> set ''smile''. is_word c" by (simp add: is_word_def)
  have h4: "\<forall>c \<in> set ''123''. is_digit c" by (simp add: is_digit_def)
  have p: "emoji_sub ''hi '' = ''hi ''" and q: "emoji_sub '' <:ok:7>'' = '' :ok:''"
    by code_simp+
  from emoji_rewritten [of "''smile''" "''123''" "''hi ''" "'' <:ok:7>''"] h2 h4 p q
  show ?thesis by (simp add: list_all_iff)
qed

text \<open>
  C9. For an event of another author in a bridged channel: with the text \<open>!help\<close> the
  pattern of line 33 does not match and nothing is sent; with the text \<open>hello\<close> it
  matches and the event is sent with \<open>say\<close>.
\<close>

theorem command_filter:
  assumes "get_hook (memory_webhooks b) (channel_id m) = Some h"
      and "dict_get (client_channel_mappings b) (channel_id m) = Some irc_channel"
      and "py_int (hook_id h) = Some hid"
      and "author_id m \<noteq> hid"
  shows "\<not> valid_message ''!help''
       \<and> local_sends (on_message name_fmt b (m\<lparr>clean_content := ''!help''\<rparr>)) = []
       \<and> valid_message ''hello''
       \<and> local_sends (on_message name_fmt b (m\<lparr>clean_content := ''hello''\<rparr>)) =
           [Say (''<'' @ name_fmt (author_name m) @ ''> ''
                  @ strip (replace_newlines (join '' '' (''hello'' # attachments m))))
              irc_channel]
       \<and> (attachments m = [] \<longrightarrow>
            local_sends (on_message name_fmt b (m\<lparr>clean_content := ''hello''\<rparr>)) =
              [Say (''<'' @ name_fmt (author_name m) @ ''> hello'') irc_channel])"
proof -
  have c: "\<not> valid_message ''!help''"
    by (simp add: valid_message_def command_like_def is_space_def is_word_def)
  have v: "valid_message ''hello''"
    by (simp add: valid_message_def command_like_def)
  have d: "local_sends (on_message name_fmt b (m\<lparr>clean_content := ''!help''\<rparr>)) = []"
    using c by (simp add: on_message_filtered)
  have f: "local_sends (on_message name_fmt b (m\<lparr>clean_content := ''hello''\<rparr>)) =
             relay name_fmt (m\<lparr>clean_content := ''hello''\<rparr>) irc_channel"
    using assms v by (intro on_message_forward [where h = h and hid = hid]) simp_all
  show ?thesis
    using c v d f by (simp add: relay_hello strip_hello)
qed

theorem command_filter_witness:
  "get_hook (memory_webhooks sample_bridge) (channel_id sample_message) = Some sample_hook
   \<and> dict_get (client_channel_mappings sample_bridge) (channel_id sample_message) = Some ''#irc''
   \<and> py_int (hook_id sample_hook) = Some 777
   \<and> author_id sample_message \<noteq> 777
   \<and> local_sends (on_message id sample_bridge (sample_message\<lparr>clean_content := ''!help''\<rparr>)) = []
   \<and> local_sends (on_message id sample_bridge (sample_message\<lparr>clean_content := ''hello''\<rparr>)) =
       [Say ''<bob> hello'' ''#irc'']"
proof -
  have h1: "get_hook (memory_webhooks sample_bridge) (channel_id sample_message) = Some sample_hook"
    by code_simp
  have h2: "dict_get (client_channel_mappings sample_bridge) (channel_id sample_message)
              = Some ''#irc''"
    by code_simp
  have h3: "py_int (hook_id sample_hook) = Some 777" by code_simp
  have h4: "author_id sample_message \<noteq> 777" by code_simp
  have a: "attachments sample_message = []" "author_name sample_message = ''bob''"
    by (simp_all add: sample_message_def)
  from command_filter [OF h1 h2 h3 h4, of id] h1 h2 h3 h4 a show ?thesis by (simp add: strip_hello)
qed

text \<open>
  C10. For an event of another author in a bridged channel: without attachments, a text
  that normalises to \<open>_doing a thing_\<close> is sent with \<open>action\<close>, the underscores removed,
  after the author's name; with attachments, the text \<open>_doing a thing_\<close> is sent with
  \<open>say\<close> and keeps its underscores.
\<close>

theorem action_detection:
  assumes "get_hook (memory_webhooks b) (channel_id m) = Some h"
      and "dict_get (client_channel_mappings b) (channel_id m) = Some irc_channel"
      and "py_int (hook_id h) = Some hid"
      and "author_id m \<noteq> hid"
  shows "(attachments m = [] \<and> valid_message (clean_content m)
            \<and> strip (replace_newlines (emoji_sub (clean_content m))) = ''_doing a thing_''
          \<longrightarrow> local_sends (on_message name_fmt b m) =
                [Action (author_name m @ '' doing a thing'') irc_channel])
       \<and> (attachments m \<noteq> [] \<and> clean_content m = ''_doing a thing_''
          \<longrightarrow> (\<exists>rest. local_sends (on_message name_fmt b m) =
                [Say (''<'' @ name_fmt (author_name m) @ ''> _doing a thing_'' @ rest)
                   irc_channel]))"
proof (intro conjI impI)
  assume a: "attachments m = [] \<and> valid_message (clean_content m)
               \<and> strip (replace_newlines (emoji_sub (clean_content m))) = ''_doing a thing_''"
  then have "local_sends (on_message name_fmt b m) = relay name_fmt m irc_channel"
    using assms by (intro on_message_forward [where h = h and hid = hid]) simp_all
  moreover have "relay name_fmt m irc_channel =
                   [Action (author_name m @ '' doing a thing'') irc_channel]"
    using a by (simp add: relay_def Let_def action_pattern_doing)
  ultimately show "local_sends (on_message name_fmt b m) =
                     [Action (author_name m @ '' doing a thing'') irc_channel]"
    by simp
next
  assume a: "attachments m \<noteq> [] \<and> clean_content m = ''_doing a thing_''"
  have v: "valid_message ''_doing a thing_''"
    by (simp add: valid_message_def command_like_def)
  have f: "local_sends (on_message name_fmt b m) = relay name_fmt m irc_channel"
    using assms a v by (intro on_message_forward [where h = h and hid = hid]) simp_all
  have e: "emoji_sub ''_doing a thing_'' = ''_doing a thing_''"
    by (simp add: emoji_sub.simps match_emoji_def)
  have j: "join '' '' (''_doing a thing_'' # attachments m)
             = ''_doing a thing_'' @ '' '' @ join '' '' (attachments m)"
    using a by (simp add: join_Cons)
  have "\<not> is_space CHR ''_''" by (simp add: is_space_def)
  from strip_keeps_prefix [OF this this, of "''doing a thing''"
      "replace_newlines ('' '' @ join '' '' (attachments m))"]
  obtain rest where r: "strip (replace_newlines (join '' '' (''_doing a thing_'' # attachments m)))
                          = ''_doing a thing_'' @ rest"
    by (auto simp: j replace_newlines_def)
  have "relay name_fmt m irc_channel =
          [Say (''<'' @ name_fmt (author_name m) @ ''> _doing a thing_'' @ rest) irc_channel]"
    using a r by (simp add: relay_def Let_def e)
  with f show "\<exists>rest. local_sends (on_message name_fmt b m) =
                 [Say (''<'' @ name_fmt (author_name m) @ ''> _doing a thing_'' @ rest)
                    irc_channel]"
    by auto
qed

theorem action_detection_witness:
  "get_hook (memory_webhooks sample_bridge) (channel_id sample_message) = Some sample_hook
   \<and> dict_get (client_channel_mappings sample_bridge) (channel_id sample_message) = Some ''#irc''
   \<and> py_int (hook_id sample_hook) = Some 777
   \<and> author_id sample_message \<noteq> 777
   \<and> attachments sample_message = []
   \<and> valid_message (clean_content sample_message)
   \<and> strip (replace_newlines (emoji_sub (clean_content sample_message))) = ''_doing a thing_''
   \<and> local_sends (on_message id sample_bridge sample_message) =
       [Action ''bob doing a thing'' ''#irc'']
   \<and> local_sends (on_message id sample_bridge
         (sample_message\<lparr>attachments := [''http://x/y.png'']\<rparr>)) =
       [Say ''<bob> _doing a thing_ http://x/y.png'' ''#irc'']"
proof -
  have h1: "get_hook (memory_webhooks sample_bridge) (channel_id sample_message) = Some sample_hook"
    by code_simp
  have h2: "dict_get (client_channel_mappings sample_bridge) (channel_id sample_message)
              = Some ''#irc''"
    by code_simp
  have h3: "py_int (hook_id sample_hook) = Some 777" by code_simp
  have h4: "author_id sample_message \<noteq> 777" by code_simp
  have h5: "attachments sample_message = []" by code_simp
  have h6: "valid_message (clean_content sample_message)" by code_simp
  have h7: "strip (replace_newlines (emoji_sub (clean_content sample_message)))
              = ''_doing a thing_''"
    by code_simp
  have n: "author_name sample_message = ''bob''" by (simp add: sample_message_def)
  have s: "local_sends (on_message id sample_bridge
             (sample_message\<lparr>attachments := [''http://x/y.png'']\<rparr>)) =
           [Say ''<bob> _doing a thing_ http://x/y.png'' ''#irc'']"
    by code_simp
  from action_detection [OF h1 h2 h3 h4, of id] h1 h2 h3 h4 h5 h6 h7 n s show ?thesis by simp
qed

section \<open>Delivery requests and failures\<close>




text \<open>
  C6, as the code has it. Every delivery is one POST to
  \<open>{DISCORD_API_URL}/webhooks/{id}/{token}\<close> of the channel's webhook, and it carries the
  header \<open>Authorization: Bot <discord_token>\<close>, the bot's credential, next to the
  webhook's own token in the URL.
\<close>

theorem delivery_request:
  assumes "\<not> is_privmsg t"
      and "dict_get (memory_channel_mappings b) (sender t) = Some c"
      and "get_hook (memory_webhooks b) c = Some h"
  shows "http_calls (irc_message env b t) =
           [HttpPost (DISCORD_API_URL @ ''/webhooks/'' @ hook_id h @ ''/'' @ hook_token h)
              [(''Authorization'', ''Bot '' @ discord_token b)]
              [(''content'', if intent t = Some ''ACTION'' then ''_'' @ match_string t @ ''_''
                             else match_string t),
               (''username'', nick t @ '' (IRC)'')]]"
  using assms
  by (simp add: irc_message_def http_calls_def deliver_def Let_def split: http_result.splits)

theorem delivery_request_witness:
  "\<not> is_privmsg sample_trigger
   \<and> dict_get (memory_channel_mappings sample_bridge) (sender sample_trigger) = Some 42
   \<and> get_hook (memory_webhooks sample_bridge) 42 = Some sample_hook
   \<and> http_calls (irc_message http_ok sample_bridge sample_trigger) =
       [HttpPost ''https://discord.com/api/v6/webhooks/777/tok''
          [(''Authorization'', ''Bot secret'')]
          [(''content'', ''hi''), (''username'', ''alice (IRC)'')]]"
proof -
  have h1: "\<not> is_privmsg sample_trigger" by code_simp
  have h2: "dict_get (memory_channel_mappings sample_bridge) (sender sample_trigger) = Some 42"
    by code_simp
  have h3: "get_hook (memory_webhooks sample_bridge) 42 = Some sample_hook" by code_simp
  have v: "hook_id sample_hook = ''777''" "hook_token sample_hook = ''tok''"
    "discord_token sample_bridge = ''secret''" "intent sample_trigger = None"
    "match_string sample_trigger = ''hi''" "nick sample_trigger = ''alice''"
    by (simp_all add: sample_hook_def sample_bridge_def sample_trigger_def)
  from delivery_request [OF h1 h2 h3, of http_ok] h1 h2 h3 v show ?thesis
    by (simp add: DISCORD_API_URL_def)
qed

text \<open>
  C6 as stated fails: the delivery POST of the sample trigger carries the bot's
  credential \<open>secret\<close> in its \<open>Authorization\<close> header.
\<close>

theorem delivery_carries_bot_credential:
  "discord_token sample_bridge = ''secret''
   \<and> http_calls (irc_message http_ok sample_bridge sample_trigger) =
       [HttpPost ''https://discord.com/api/v6/webhooks/777/tok''
          [(''Authorization'', ''Bot secret'')]
          [(''content'', ''hi''), (''username'', ''alice (IRC)'')]]"
  by code_simp

section \<open>Provisioning failures\<close>

text \<open>
  C3, as the code has it. When the GET that lists the webhooks of a channel, or the POST
  that creates one, answers with a status from 400 to 599, the loop leaves the
  channel's entry empty, prints the three lines of the failure report and goes on with
  the remaining channels from that state; the entry is still empty when the loop is
  over, unless a later item names the same channel. When one of the two calls itself
  raises an exception that is not an \<open>HTTPError\<close> (a network failure), the loop ends
  there with that exception: nothing is printed and the remaining channels are not
  tried. The registry is then as it was when the GET raised (line 136 has not run), and
  holds the empty entry for the channel when the POST raised.
\<close>

theorem provisioning_http_error:
  "(get_webhooks env (webhooks_url c) hdrs = Response status js
      \<and> 400 \<le> status \<and> status < 600
    \<longrightarrow> provision_all env hdrs ((k, c) # items) (w, tr) =
          provision_all env hdrs items
            (dict_set w c None,
             tr @ [HttpGet (webhooks_url c) hdrs] @ failure_report c (HTTPError status)))
   \<and> (get_webhooks env (webhooks_url c) hdrs = Response s1 (Inr hooks)
      \<and> \<not> (400 \<le> s1 \<and> s1 < 600)
      \<and> (\<forall>h \<in> set hooks. hook_name h \<noteq> ''discord-irc'')
      \<and> post_webhook env (webhooks_url c) hdrs [(''name'', ''discord-irc'')]
           = Response status js2
      \<and> 400 \<le> status \<and> status < 600
    \<longrightarrow> provision_all env hdrs ((k, c) # items) (w, tr) =
          provision_all env hdrs items
            (dict_set w c None,
             tr @ [HttpGet (webhooks_url c) hdrs,
                   HttpPost (webhooks_url c) hdrs [(''name'', ''discord-irc'')]]
                @ failure_report c (HTTPError status)))
   \<and> (c \<notin> snd ` set items
    \<longrightarrow> dict_get (fst (fst (provision_all env hdrs items (dict_set w c None, tr')))) c
          = Some None)
   \<and> (get_webhooks env (webhooks_url c) hdrs = Raises e \<and> \<not> is_HTTPError e
    \<longrightarrow> provision_all env hdrs ((k, c) # items) (w, tr) =
          ((w, tr @ [HttpGet (webhooks_url c) hdrs]), Some e))
   \<and> (get_webhooks env (webhooks_url c) hdrs = Response s1 (Inr hooks)
      \<and> \<not> (400 \<le> s1 \<and> s1 < 600)
      \<and> (\<forall>h \<in> set hooks. hook_name h \<noteq> ''discord-irc'')
      \<and> post_webhook env (webhooks_url c) hdrs [(''name'', ''discord-irc'')] = Raises e
      \<and> \<not> is_HTTPError e
    \<longrightarrow> provision_all env hdrs ((k, c) # items) (w, tr) =
          ((dict_set w c None,
            tr @ [HttpGet (webhooks_url c) hdrs,
                  HttpPost (webhooks_url c) hdrs [(''name'', ''discord-irc'')]]),
           Some e))"
proof (intro conjI impI)
  assume "get_webhooks env (webhooks_url c) hdrs = Response status js
            \<and> 400 \<le> status \<and> status < 600"
  then have "provision env hdrs c (w, tr) =
      ((dict_set w c None, tr @ [HttpGet (webhooks_url c) hdrs]), Some (HTTPError status))"
    by (intro provision_get_error) simp_all
  then show "provision_all env hdrs ((k, c) # items) (w, tr) =
          provision_all env hdrs items
            (dict_set w c None,
             tr @ [HttpGet (webhooks_url c) hdrs] @ failure_report c (HTTPError status))"
    by simp
next
  assume a: "get_webhooks env (webhooks_url c) hdrs = Response s1 (Inr hooks)
      \<and> \<not> (400 \<le> s1 \<and> s1 < 600)
      \<and> (\<forall>h \<in> set hooks. hook_name h \<noteq> ''discord-irc'')
      \<and> post_webhook env (webhooks_url c) hdrs [(''name'', ''discord-irc'')]
           = Response status js2
      \<and> 400 \<le> status \<and> status < 600"
  have "provision env hdrs c (w, tr) =
           ((dict_set w c None,
             tr @ [HttpGet (webhooks_url c) hdrs,
                   HttpPost (webhooks_url c) hdrs [(''name'', ''discord-irc'')]]),
            Some (HTTPError status))"
    by (rule provision_post_error [where ?s1.0 = s1 and hooks = hooks and js = js2])
       (use a in simp_all)
  then show "provision_all env hdrs ((k, c) # items) (w, tr) =
          provision_all env hdrs items
            (dict_set w c None,
             tr @ [HttpGet (webhooks_url c) hdrs,
                   HttpPost (webhooks_url c) hdrs [(''name'', ''discord-irc'')]]
                @ failure_report c (HTTPError status))"
    by simp
next
  assume "c \<notin> snd ` set items"
  from provision_all_other [OF this, of env hdrs "(dict_set w c None, tr')"]
  show "dict_get (fst (fst (provision_all env hdrs items (dict_set w c None, tr')))) c
          = Some None"
    by (simp add: dict_get_dict_set)
next
  assume a: "get_webhooks env (webhooks_url c) hdrs = Raises e \<and> \<not> is_HTTPError e"
  then have "provision env hdrs c (w, tr) =
               ((w, tr @ [HttpGet (webhooks_url c) hdrs]), Some e)"
    by (intro provision_get_raises) simp
  with a show "provision_all env hdrs ((k, c) # items) (w, tr) =
          ((w, tr @ [HttpGet (webhooks_url c) hdrs]), Some e)"
    by simp
next
  assume a: "get_webhooks env (webhooks_url c) hdrs = Response s1 (Inr hooks)
      \<and> \<not> (400 \<le> s1 \<and> s1 < 600)
      \<and> (\<forall>h \<in> set hooks. hook_name h \<noteq> ''discord-irc'')
      \<and> post_webhook env (webhooks_url c) hdrs [(''name'', ''discord-irc'')] = Raises e
      \<and> \<not> is_HTTPError e"
  have "provision env hdrs c (w, tr) =
           ((dict_set w c None,
             tr @ [HttpGet (webhooks_url c) hdrs,
                   HttpPost (webhooks_url c) hdrs [(''name'', ''discord-irc'')]]),
            Some e)"
    by (rule provision_post_raises [where ?s1.0 = s1 and hooks = hooks]) (use a in simp_all)
  with a show "provision_all env hdrs ((k, c) # items) (w, tr) =
          ((dict_set w c None,
            tr @ [HttpGet (webhooks_url c) hdrs,
                  HttpPost (webhooks_url c) hdrs [(''name'', ''discord-irc'')]]),
           Some e)"
    by simp
qed

theorem provisioning_http_error_witness:
  "get_webhooks http_first_forbidden (webhooks_url 42) [(''Authorization'', ''Bot secret'')]
     = Response 403 (Inl JSONDecodeError)
   \<and> provision_all http_first_forbidden [(''Authorization'', ''Bot secret'')]
       [(''#irc'', 42), (''#dev'', 43)] ([], []) =
     provision_all http_first_forbidden [(''Authorization'', ''Bot secret'')]
       [(''#dev'', 43)]
       ([(42, None)],
        [HttpGet (webhooks_url 42) [(''Authorization'', ''Bot secret'')]]
          @ failure_report 42 (HTTPError 403))
   \<and> get_webhooks http_create_forbidden (webhooks_url 42) [(''Authorization'', ''Bot secret'')]
     = Response 200 (Inr [])
   \<and> post_webhook http_create_forbidden (webhooks_url 42) [(''Authorization'', ''Bot secret'')]
       [(''name'', ''discord-irc'')] = Response 403 (Inl JSONDecodeError)
   \<and> provision_all http_create_forbidden [(''Authorization'', ''Bot secret'')]
       [(''#irc'', 42), (''#dev'', 43)] ([], []) =
     provision_all http_create_forbidden [(''Authorization'', ''Bot secret'')]
       [(''#dev'', 43)]
       ([(42, None)],
        [HttpGet (webhooks_url 42) [(''Authorization'', ''Bot secret'')],
         HttpPost (webhooks_url 42) [(''Authorization'', ''Bot secret'')]
           [(''name'', ''discord-irc'')]]
          @ failure_report 42 (HTTPError 403))
   \<and> dict_get (fst (fst (provision_all http_first_forbidden [(''Authorization'', ''Bot secret'')]
         [(''#dev'', 43)] ([(42, None)], [])))) 42 = Some None
   \<and> memory_webhooks (fst (fst (setup_webhooks http_first_forbidden sample_bridge)))
     = [(42, None), (43, Some sample_hook)]
   \<and> snd (setup_webhooks http_first_forbidden sample_bridge) = None
   \<and> get_webhooks http_down (webhooks_url 42) [(''Authorization'', ''Bot secret'')]
     = Raises ConnectionError
   \<and> provision_all http_down [(''Authorization'', ''Bot secret'')]
       [(''#irc'', 42), (''#dev'', 43)] ([], []) =
     (([], [HttpGet (webhooks_url 42) [(''Authorization'', ''Bot secret'')]]),
      Some ConnectionError)
   \<and> get_webhooks http_create_down (webhooks_url 42) [(''Authorization'', ''Bot secret'')]
     = Response 200 (Inr [])
   \<and> post_webhook http_create_down (webhooks_url 42) [(''Authorization'', ''Bot secret'')]
       [(''name'', ''discord-irc'')] = Raises ConnectionError
   \<and> provision_all http_create_down [(''Authorization'', ''Bot secret'')]
       [(''#irc'', 42), (''#dev'', 43)] ([], []) =
     (([(42, None)],
       [HttpGet (webhooks_url 42) [(''Authorization'', ''Bot secret'')],
        HttpPost (webhooks_url 42) [(''Authorization'', ''Bot secret'')]
          [(''name'', ''discord-irc'')]]),
      Some ConnectionError)"
proof -
  have g1: "get_webhooks http_first_forbidden (webhooks_url 42)
              [(''Authorization'', ''Bot secret'')] = Response 403 (Inl JSONDecodeError)"
    by code_simp
  have g2: "get_webhooks http_create_forbidden (webhooks_url 42)
              [(''Authorization'', ''Bot secret'')] = Response 200 (Inr [])"
    by code_simp
  have p2: "post_webhook http_create_forbidden (webhooks_url 42)
              [(''Authorization'', ''Bot secret'')] [(''name'', ''discord-irc'')]
            = Response 403 (Inl JSONDecodeError)"
    by code_simp
  have g3: "get_webhooks http_down (webhooks_url 42) [(''Authorization'', ''Bot secret'')]
              = Raises ConnectionError"
    by code_simp
  have g4: "get_webhooks http_create_down (webhooks_url 42)
              [(''Authorization'', ''Bot secret'')] = Response 200 (Inr [])"
    by code_simp
  have p4: "post_webhook http_create_down (webhooks_url 42)
              [(''Authorization'', ''Bot secret'')] [(''name'', ''discord-irc'')]
            = Raises ConnectionError"
    by code_simp
  have n: "(42::int) \<notin> snd ` set [(''#dev'', 43::int)]" by simp
  have r: "memory_webhooks (fst (fst (setup_webhooks http_first_forbidden sample_bridge)))
             = [(42, None), (43, Some sample_hook)]"
    "snd (setup_webhooks http_first_forbidden sample_bridge) = None"
    by code_simp+
  note t1 = provisioning_http_error [where env = http_first_forbidden and c = 42
      and hdrs = "[(''Authorization'', ''Bot secret'')]" and status = 403
      and js = "Inl JSONDecodeError" and k = "''#irc''" and items = "[(''#dev'', 43)]"
      and w = "[]" and tr = "[]" and tr' = "[]"]
  note t2 = provisioning_http_error [where env = http_create_forbidden and c = 42
      and hdrs = "[(''Authorization'', ''Bot secret'')]" and status = 403
      and k = "''#irc''" and items = "[(''#dev'', 43)]" and w = "[]" and tr = "[]"
      and ?s1.0 = 200 and hooks = "[]" and ?js2.0 = "Inl JSONDecodeError"]
  note t3 = provisioning_http_error [where env = http_down and c = 42
      and hdrs = "[(''Authorization'', ''Bot secret'')]" and k = "''#irc''"
      and items = "[(''#dev'', 43)]" and w = "[]" and tr = "[]" and e = ConnectionError]
  note t4 = provisioning_http_error [where env = http_create_down and c = 42
      and hdrs = "[(''Authorization'', ''Bot secret'')]" and k = "''#irc''"
      and items = "[(''#dev'', 43)]" and w = "[]" and tr = "[]" and ?s1.0 = 200
      and hooks = "[]" and e = ConnectionError]
  from t1 g1 n have a: "provision_all http_first_forbidden [(''Authorization'', ''Bot secret'')]
       [(''#irc'', 42), (''#dev'', 43)] ([], []) =
     provision_all http_first_forbidden [(''Authorization'', ''Bot secret'')]
       [(''#dev'', 43)]
       ([(42, None)],
        [HttpGet (webhooks_url 42) [(''Authorization'', ''Bot secret'')]]
          @ failure_report 42 (HTTPError 403))"
    and c: "dict_get (fst (fst (provision_all http_first_forbidden
         [(''Authorization'', ''Bot secret'')] [(''#dev'', 43)] ([(42, None)], [])))) 42
         = Some None"
    by simp_all
  from t2 g2 p2 have b: "provision_all http_create_forbidden [(''Authorization'', ''Bot secret'')]
       [(''#irc'', 42), (''#dev'', 43)] ([], []) =
     provision_all http_create_forbidden [(''Authorization'', ''Bot secret'')]
       [(''#dev'', 43)]
       ([(42, None)],
        [HttpGet (webhooks_url 42) [(''Authorization'', ''Bot secret'')],
         HttpPost (webhooks_url 42) [(''Authorization'', ''Bot secret'')]
           [(''name'', ''discord-irc'')]]
          @ failure_report 42 (HTTPError 403))"
    by simp
  from t3 g3 have d: "provision_all http_down [(''Authorization'', ''Bot secret'')]
       [(''#irc'', 42), (''#dev'', 43)] ([], []) =
     (([], [HttpGet (webhooks_url 42) [(''Authorization'', ''Bot secret'')]]),
      Some ConnectionError)"
    by simp
  from t4 g4 p4 have f: "provision_all http_create_down [(''Authorization'', ''Bot secret'')]
       [(''#irc'', 42), (''#dev'', 43)] ([], []) =
     (([(42, None)],
       [HttpGet (webhooks_url 42) [(''Authorization'', ''Bot secret'')],
        HttpPost (webhooks_url 42) [(''Authorization'', ''Bot secret'')]
          [(''name'', ''discord-irc'')]]),
      Some ConnectionError)"
    by simp
  from g1 g2 p2 g3 g4 p4 a b c d f r show ?thesis by simp
qed

text \<open>
  C3 as stated fails for a network error: \<open>requests.get\<close> raises \<open>ConnectionError\<close>
  for the first channel, nothing is printed, the registry stays empty, the second
  channel is never tried and \<open>_setup_webhooks\<close> raises the exception.
\<close>

theorem provisioning_network_error_raised:
  "setup_webhooks http_down sample_bridge =
     ((sample_bridge\<lparr>memory_webhooks := []\<rparr>,
       [HttpGet ''https://discord.com/api/v6/channels/42/webhooks''
          [(''Authorization'', ''Bot secret'')]]),
      Some ConnectionError)"
  by code_simp

section \<open>The mapping table\<close>

text \<open>
  C4, as the code has it. Loading the mapping fails, with \<open>ValueError\<close>, exactly when
  some entry of the comma-separated list does not have exactly one colon or has no
  integer literal before it. Whether an id occurs twice plays no part.
\<close>

theorem load_mappings_fails_iff_malformed:
  "(list_all entry_loads (split_on CHR '','' value) \<longrightarrow> (\<exists>maps. load_mappings value = Inr maps))
   \<and> (\<not> list_all entry_loads (split_on CHR '','' value) \<longrightarrow> load_mappings value = Inl ValueError)"
proof (intro conjI impI)
  let ?pairs = "split_on CHR '','' value"
  assume ok: "list_all entry_loads ?pairs"
  then have "\<forall>item \<in> set ?pairs. length (split_on CHR '':'' item) = 2"
    by (simp add: list_all_iff entry_loads_iff)
  from parse_items_keys [OF this, of "[]"] obtain d where
    d: "parse_items ?pairs [] = Inr d"
       "fst ` set d = (\<lambda>item. strip (hd (split_on CHR '':'' item))) ` set ?pairs"
    by auto
  from ok d(2) have "\<forall>k \<in> fst ` set d. py_int k \<noteq> None"
    by (auto simp: list_all_iff entry_loads_iff)
  then have "\<exists>cm. int_keys d [] = Inr cm"
    by (simp only: int_keys_result) simp
  with d(1) show "\<exists>maps. load_mappings value = Inr maps"
    by (auto simp: load_mappings_def parse_def setup_mappings_def)
next
  let ?pairs = "split_on CHR '','' value"
  assume bad: "\<not> list_all entry_loads ?pairs"
  show "load_mappings value = Inl ValueError"
  proof (cases "\<forall>item \<in> set ?pairs. length (split_on CHR '':'' item) = 2")
    case False
    then have "parse_items ?pairs [] = Inl ValueError"
      by (intro parse_items_malformed) simp
    then show ?thesis by (simp add: load_mappings_def parse_def)
  next
    case True
    from parse_items_keys [OF this, of "[]"] obtain d where
      d: "parse_items ?pairs [] = Inr d"
         "fst ` set d = (\<lambda>item. strip (hd (split_on CHR '':'' item))) ` set ?pairs"
      by auto
    from bad True obtain item where "item \<in> set ?pairs"
      "py_int (strip (hd (split_on CHR '':'' item))) = None"
      by (auto simp: list_all_iff entry_loads_iff)
    with d(2) have "\<not> (\<forall>k \<in> fst ` set d. py_int k \<noteq> None)"
      by (metis (no_types, lifting) image_eqI)
    then have "int_keys d [] = Inl ValueError"
      by (simp only: int_keys_result) simp
    with d(1) show ?thesis
      by (simp add: load_mappings_def parse_def setup_mappings_def)
  qed
qed

theorem load_mappings_fails_iff_malformed_witness:
  "list_all entry_loads (split_on CHR '','' ''1:#a,1:#b'')
   \<and> load_mappings ''1:#a,1:#b'' = Inr ([(1, ''#b'')], [(''#b'', 1)])
   \<and> \<not> list_all entry_loads (split_on CHR '','' ''1:#a,2'')
   \<and> load_mappings ''1:#a,2'' = Inl ValueError"
proof -
  have h1: "list_all entry_loads (split_on CHR '','' ''1:#a,1:#b'')" by code_simp
  have h2: "\<not> list_all entry_loads (split_on CHR '','' ''1:#a,2'')" by code_simp
  have v: "load_mappings ''1:#a,1:#b'' = Inr ([(1, ''#b'')], [(''#b'', 1)])" by code_simp
  from load_mappings_fails_iff_malformed [of "''1:#a,2''"] h1 h2 v show ?thesis by simp
qed

text \<open>
  C4 as stated fails: a list that names the remote id 1 twice, and a list that names the
  local id \<open>#a\<close> twice, both load; the later entry replaces the earlier one.
\<close>

theorem duplicate_ids_accepted:
  "load_mappings ''1:#a,1:#b'' = Inr ([(1, ''#b'')], [(''#b'', 1)])
   \<and> load_mappings ''1:#a,2:#a'' = Inr ([(1, ''#a''), (2, ''#a'')], [(''#a'', 2)])"
  by code_simp

text \<open>
  C5, as the code has it. When the remote ids of the configured pairs are integer
  literals with pairwise distinct values and the local ids are pairwise distinct, both
  round trips hold for every configured pair.
\<close>

theorem mappings_round_trip:
  assumes "\<forall>k \<in> fst ` set config. py_int k \<noteq> None"
      and "distinct (map (\<lambda>p. py_int (fst p)) config)"
      and "distinct (map snd config)"
      and "(k, v) \<in> set config"
  shows "\<exists>r. py_int k = Some r \<and> remote_round_trip config r = Some r
            \<and> local_round_trip config v = Some v"
proof -
  let ?cm = "map (\<lambda>(k, v). (the (py_int k), v)) config"
  let ?bm = "map (\<lambda>(k, v). (v, k)) ?cm"
  have cm: "int_keys config [] = Inr ?cm"
    using int_keys_distinct [OF assms(1,2), of "[]"] by simp
  have sv: "map snd ?cm = map snd config" by (induction config) auto
  have d2: "distinct (map snd ?cm)" using assms(3) by (simp only: sv)
  have "invert ?cm [] = ?bm"
    using invert_distinct [OF d2, of "[]"] by simp
  with cm have maps: "setup_mappings config = Inr (?cm, ?bm)"
    by (simp add: setup_mappings_def)
  from assms(1,4) obtain r where r: "py_int k = Some r" by force
  have fk: "map fst ?cm = map the (map (\<lambda>p. py_int (fst p)) config)"
    by (induction config) auto
  have "inj_on the (set (map (\<lambda>p. py_int (fst p)) config))"
  proof (rule inj_onI)
    fix x y
    assume x: "x \<in> set (map (\<lambda>p. py_int (fst p)) config)"
       and y: "y \<in> set (map (\<lambda>p. py_int (fst p)) config)" and e: "the x = the y"
    from x assms(1) obtain i where "x = Some i" by force
    moreover from y assms(1) obtain j where "y = Some j" by force
    ultimately show "x = y" using e by simp
  qed
  with assms(2) have dk: "distinct (map fst ?cm)"
    by (simp only: fk distinct_map)
  have fb: "map fst ?bm = map snd config" by (induction config) auto
  have db: "distinct (map fst ?bm)" using assms(3) by (simp only: fb)
  have "(r, v) \<in> set ?cm" using assms(4) r by force
  with dk have l1: "dict_get ?cm r = Some v" by (simp add: dict_get_def)
  have "(v, r) \<in> set ?bm" using assms(4) r by force
  with db have l2: "dict_get ?bm v = Some r" by (simp only: dict_get_def map_of_is_SomeI)
  from maps l1 l2 r show ?thesis
    by (simp add: remote_round_trip_def local_round_trip_def)
qed

theorem mappings_round_trip_witness:
  "list_all (\<lambda>k. py_int k \<noteq> None) (map fst (config_channel_mappings sample_bridge))
   \<and> distinct (map (\<lambda>p. py_int (fst p)) (config_channel_mappings sample_bridge))
   \<and> distinct (map snd (config_channel_mappings sample_bridge))
   \<and> (''43'', ''#dev'') \<in> set (config_channel_mappings sample_bridge)
   \<and> py_int ''43'' = Some 43
   \<and> remote_round_trip (config_channel_mappings sample_bridge) 43 = Some 43
   \<and> local_round_trip (config_channel_mappings sample_bridge) ''#dev'' = Some ''#dev''"
proof -
  have c: "config_channel_mappings sample_bridge = [(''42'', ''#irc''), (''43'', ''#dev'')]"
    by (simp add: sample_bridge_def)
  have p: "py_int ''42'' = Some 42" "py_int ''43'' = Some 43" by code_simp+
  have h1: "\<forall>k \<in> fst ` set (config_channel_mappings sample_bridge). py_int k \<noteq> None"
    by (simp add: c p)
  have h2: "distinct (map (\<lambda>p. py_int (fst p)) (config_channel_mappings sample_bridge))"
    by (simp add: c p)
  have h3: "distinct (map snd (config_channel_mappings sample_bridge))"
    by (simp add: c)
  have h4: "(''43'', ''#dev'') \<in> set (config_channel_mappings sample_bridge)"
    by (simp add: c)
  from mappings_round_trip [OF h1 h2 h3 h4] h1 h2 h3 h4 p show ?thesis
    by (simp add: list_all_iff)
qed

text \<open>
  C5 as stated fails when ids repeat: with the remote ids 1 and 2 both mapped to \<open>#a\<close>,
  remote id 1 comes back as 2; with the remote id 1 written twice (\<open>1\<close> and \<open>01\<close>), the
  local id \<open>#a\<close> of the first pair is not found at all.
\<close>

theorem shared_local_id_breaks_round_trip:
  "remote_round_trip [(''1'', ''#a''), (''2'', ''#a'')] 1 = Some 2
   \<and> local_round_trip [(''1'', ''#a''), (''01'', ''#b'')] ''#a'' = None"
  by code_simp

end
